theory Spec2Isabelle
  imports Main "HOL-Library.Word"
begin

section \<open>organizify: the Spotify login of \<open>pkg/spotify/auth.go\<close>\<close>

text \<open>
  The development embeds \<open>pkg/spotify/auth.go\<close>: the PKCE parameters, the two calls of
  the token endpoint, the freshness test of the cached token, the callback handler and
  \<open>Login\<close>. Go strings are byte sequences, so they are \<open>string\<close> (lists of 8-bit
  characters). Everything the code takes from outside the process (the random source, the
  clock, the answers of the token endpoint, the callback requests that reach the
  listener) is an input of the model, collected in the record \<open>env\<close> below.
\<close>

subsection \<open>Constants\<close>

definition clientID :: string where
  "clientID = ''e2d7b802ac6a4132a265fab71f0645d0''"

definition redirectURI :: string where
  "redirectURI = ''http://127.0.0.1:1069''"

definition authURL :: string where
  "authURL = ''https://accounts.spotify.com/authorize''"

definition tokenURL :: string where
  "tokenURL = ''https://accounts.spotify.com/api/token''"

definition scopes :: "string list" where
  "scopes = [''playlist-read-private'', ''playlist-read-collaborative'', ''user-library-read'']"

subsection \<open>\<open>base64.RawURLEncoding.EncodeToString\<close>\<close>

text \<open>
  The encoder of Go's \<open>encoding/base64\<close> with the URL alphabet and no padding
  character: three bytes become four characters; a rest of one byte becomes two
  characters and a rest of two bytes three, with nothing appended.
\<close>

type_synonym byte = "8 word"

definition encodeURL :: string where
  "encodeURL = ''ABCDEFGHIJKLMNOPQRSTUVWXYZabcdefghijklmnopqrstuvwxyz0123456789-_''"

definition enc6 :: "nat \<Rightarrow> char" where
  "enc6 v = encodeURL ! (v mod 64)"

fun EncodeToString :: "byte list \<Rightarrow> string" where
  "EncodeToString (a # b # c # rest) =
     (let val = unat a * 65536 + unat b * 256 + unat c
      in [enc6 (val div 262144), enc6 (val div 4096), enc6 (val div 64), enc6 val])
     @ EncodeToString rest"
| "EncodeToString [a, b] =
     (let val = unat a * 65536 + unat b * 256
      in [enc6 (val div 262144), enc6 (val div 4096), enc6 (val div 64)])"
| "EncodeToString [a] =
     (let val = unat a * 65536
      in [enc6 (val div 262144), enc6 (val div 4096)])"
| "EncodeToString [] = []"

subsection \<open>PKCE parameters\<close>

text \<open>
  \<open>rand.Read(b)\<close> fills the whole slice \<open>b\<close> from the system's random source; the
  source is the byte stream \<open>rnd\<close>, read from position \<open>pos\<close>. The error result of
  \<open>rand.Read\<close> is ignored by the code. The parameter \<open>len\<close> is the code's
  \<open>length\<close>.
\<close>

definition rand_Read :: "(nat \<Rightarrow> byte) \<Rightarrow> nat \<Rightarrow> nat \<Rightarrow> byte list" where
  "rand_Read rnd pos len = map rnd [pos ..< pos + len]"

definition generateRandomString :: "(nat \<Rightarrow> byte) \<Rightarrow> nat \<Rightarrow> nat \<Rightarrow> string" where
  "generateRandomString rnd pos len = EncodeToString (rand_Read rnd pos len)"

definition generateCodeVerifier :: "(nat \<Rightarrow> byte) \<Rightarrow> nat \<Rightarrow> string" where
  "generateCodeVerifier rnd pos = generateRandomString rnd pos 32"

definition bytes_of :: "string \<Rightarrow> byte list" where
  "bytes_of s = map (\<lambda>c. of_char c) s"

text \<open>
  \<open>sha256.Sum256\<close> belongs to Go's standard library; it is the parameter \<open>Sum256\<close>.
  Its result type in Go is the array \<open>[32]byte\<close>.
\<close>

definition generateCodeChallenge :: "(byte list \<Rightarrow> byte list) \<Rightarrow> string \<Rightarrow> string" where
  "generateCodeChallenge Sum256 verifier = EncodeToString (Sum256 (bytes_of verifier))"


subsection \<open>Tokens, the process state and the outside world\<close>

text \<open>
  \<open>oauth2.Token\<close> with the four fields the code sets. A \<open>time.Time\<close> is a number of
  nanoseconds on one time line; \<open>time.Duration\<close> is a signed 64-bit number of
  nanoseconds, so the product \<open>time.Duration(n) * time.Second\<close> wraps around.
\<close>

record Token =
  AccessToken :: string
  TokenType :: string
  RefreshToken :: string
  Expiry :: int

definition Second :: int where
  "Second = 1000000000"

definition Minute :: int where
  "Minute = 60 * Second"

definition Duration_seconds :: "int \<Rightarrow> int" where
  "Duration_seconds n = sint ((word_of_int n :: 64 word) * 1000000000)"

text \<open>The anonymous struct \<open>tokenResp\<close> that both calls of the token endpoint decode.\<close>

record tokenResp =
  access_token :: string
  token_type :: string
  expires_in :: int
  refresh_token :: string
  scope :: string

text \<open>
  What \<open>http.PostForm\<close> gives back: an error, or a response with its status code and
  the text of its body.
\<close>

datatype post_reply = Transport_error string | Response nat string

text \<open>
  The package variables. \<open>handlerRegistered\<close> is the one piece of state of
  \<open>net/http\<close> that \<open>Login\<close> changes for the rest of the process: whether
  \<open>http.DefaultServeMux\<close> has a handler for the pattern \<open>/\<close>. The channel \<open>ch\<close>
  is unbuffered, so it never holds a value; the hand-over on it is modelled by \<open>await\<close>
  below.
\<close>

record globals =
  state :: string
  codeVerifier :: string
  codeChallenge :: string
  cachedToken :: "Token option"
  handlerRegistered :: bool

text \<open>
  A callback request as the listener sees it: its parsed query string, and, should the
  handler call the token endpoint for it, the answer of the endpoint and the reading of
  the clock when the answer is turned into a token.
\<close>

record callback =
  query :: "(string \<times> string) list"
  token_reply :: post_reply
  token_time :: int

text \<open>
  The inputs of one call of \<open>Login\<close>:
  \<^item> \<open>Sum256\<close> and \<open>json_Decode\<close>, the two library functions left abstract
    (\<open>json_Decode\<close> gives \<open>Inl\<close> with the decoder's message for a body that does
    not decode);
  \<^item> \<open>rand_source\<close>, the bytes of \<open>crypto/rand\<close>;
  \<^item> \<open>clock\<close>, the reading of \<open>time.Now()\<close> in the first call of
    \<open>isTokenValid\<close>, and \<open>elapsed\<close>, the time that has passed at the second call;
  \<^item> \<open>refresh_reply\<close> and \<open>refresh_time\<close>, the answer of the token endpoint to a
    refresh and the clock when it is turned into a token;
  \<^item> \<open>callbacks\<close>, the requests the listener handles, in the order in which their
    handlers finish, before the timer of five minutes fires.
\<close>

record env =
  Sum256 :: "byte list \<Rightarrow> byte list"
  json_Decode :: "string \<Rightarrow> string + tokenResp"
  rand_source :: "nat \<Rightarrow> byte"
  clock :: int
  elapsed :: nat
  refresh_reply :: post_reply
  refresh_time :: int
  callbacks :: "callback list"

text \<open>
  What the code does to the outside world, in order. Standard output is left out: the
  branch on the error of \<open>openBrowser\<close> only chooses between two texts to print.
\<close>

datatype reply = http_Error string nat | Success_page

datatype effect =
    PostForm string "(string \<times> string) list"
  | HandleFunc string
  | ListenAndServe string
  | Shutdown
  | OpenBrowser string "(string \<times> string) list"
  | Respond reply

text \<open>
  The three results of \<open>Login\<close>, \<open>(accessToken, refToken, err)\<close>, or a panic.
\<close>

datatype login_result = Returns string string "string option" | Panics string

subsection \<open>Formatting\<close>

text \<open>The verb \<open>%d\<close> of \<open>fmt\<close> on a status code.\<close>

definition digit :: "nat \<Rightarrow> char" where
  "digit d = ''0123456789'' ! (d mod 10)"

fun show_nat :: "nat \<Rightarrow> string" where
  "show_nat n = (if n < 10 then [digit n] else show_nat (n div 10) @ [digit n])"

declare show_nat.simps [simp del]

fun strings_Join :: "string list \<Rightarrow> string \<Rightarrow> string" where
  "strings_Join [] sep = []"
| "strings_Join [x] sep = x"
| "strings_Join (x # y # zs) sep = x @ sep @ strings_Join (y # zs) sep"

text \<open>\<open>url.Values.Get\<close>: the first value of the key, or the empty string.\<close>

definition Query_Get :: "(string \<times> string) list \<Rightarrow> string \<Rightarrow> string" where
  "Query_Get q k = (case map_of q k of None \<Rightarrow> [] | Some v \<Rightarrow> v)"

text \<open>\<open>strings.Contains\<close>, used to say what an error message mentions.\<close>

definition strings_Contains :: "string \<Rightarrow> string \<Rightarrow> bool" where
  "strings_Contains s sub = list_ex (\<lambda>i. take (length sub) (drop i s) = sub) [0 ..< Suc (length s)]"

subsection \<open>The functions of \<open>auth.go\<close>\<close>

definition initPKCE :: "env \<Rightarrow> globals \<Rightarrow> globals" where
  "initPKCE e g =
     (let st = generateRandomString (rand_source e) 0 16;
          verifier = generateCodeVerifier (rand_source e) 16
      in g\<lparr>state := st, codeVerifier := verifier,
            codeChallenge := generateCodeChallenge (Sum256 e) verifier\<rparr>)"

text \<open>
  \<open>buildAuthURL\<close>: the address and the parameters set on it (\<open>url.Values.Encode\<close>,
  which escapes and joins them, is not modelled).
\<close>

definition buildAuthURL :: "globals \<Rightarrow> string \<times> (string \<times> string) list" where
  "buildAuthURL g =
     (authURL,
      [(''client_id'', clientID),
       (''response_type'', ''code''),
       (''redirect_uri'', redirectURI),
       (''state'', state g),
       (''scope'', strings_Join scopes '' ''),
       (''code_challenge_method'', ''S256''),
       (''code_challenge'', codeChallenge g)])"

definition exchangeCodeForToken :: "env \<Rightarrow> globals \<Rightarrow> callback \<Rightarrow> string \<Rightarrow> effect list \<times> (string + Token)" where
  "exchangeCodeForToken e g r code =
     (let data = [(''client_id'', clientID),
                  (''grant_type'', ''authorization_code''),
                  (''code'', code),
                  (''redirect_uri'', redirectURI),
                  (''code_verifier'', codeVerifier g)]
      in ([PostForm tokenURL data],
          (case token_reply r of
             Transport_error err \<Rightarrow> Inl (''failed to exchange code: '' @ err)
           | Response status body \<Rightarrow>
               if status \<noteq> 200
               then Inl (''token exchange failed (status '' @ show_nat status @ ''): '' @ body)
               else (case json_Decode e body of
                       Inl err \<Rightarrow> Inl (''failed to decode token response: '' @ err)
                     | Inr tr \<Rightarrow>
                         Inr \<lparr>AccessToken = access_token tr,
                              TokenType = token_type tr,
                              RefreshToken = refresh_token tr,
                              Expiry = token_time r + Duration_seconds (expires_in tr)\<rparr>))))"

definition refreshToken :: "env \<Rightarrow> Token \<Rightarrow> effect list \<times> (string + Token)" where
  "refreshToken e oldToken =
     (let data = [(''client_id'', clientID),
                  (''grant_type'', ''refresh_token''),
                  (''refresh_token'', RefreshToken oldToken)]
      in ([PostForm tokenURL data],
          (case refresh_reply e of
             Transport_error err \<Rightarrow> Inl (''failed to refresh token: '' @ err)
           | Response status body \<Rightarrow>
               if status \<noteq> 200
               then Inl (''token refresh failed (status '' @ show_nat status @ ''): '' @ body)
               else (case json_Decode e body of
                       Inl err \<Rightarrow> Inl (''failed to decode token response: '' @ err)
                     | Inr tr \<Rightarrow>
                         (let newRefreshToken =
                                (if refresh_token tr = [] then RefreshToken oldToken
                                 else refresh_token tr)
                          in Inr \<lparr>AccessToken = access_token tr,
                                  TokenType = token_type tr,
                                  RefreshToken = newRefreshToken,
                                  Expiry = refresh_time e + Duration_seconds (expires_in tr)\<rparr>)))))"

text \<open>\<open>isTokenValid\<close> at the clock reading \<open>now\<close>.\<close>

definition isTokenValid :: "Token option \<Rightarrow> int \<Rightarrow> bool" where
  "isTokenValid token now =
     (case token of
        None \<Rightarrow> False
      | Some t \<Rightarrow> Expiry t > now + 5 * Minute)"

text \<open>
  \<open>completeAuthHandler\<close> for one request: what it does, and the token it sends on
  \<open>ch\<close>, if it gets that far.
\<close>

definition completeAuthHandler :: "env \<Rightarrow> globals \<Rightarrow> callback \<Rightarrow> effect list \<times> Token option" where
  "completeAuthHandler e g r =
     (let errMsg = Query_Get (query r) ''error'' in
      if errMsg \<noteq> [] then
        (let errDesc = Query_Get (query r) ''error_description''
         in ([Respond (http_Error (''Authentication error: '' @ errMsg @ '' - '' @ errDesc) 403)],
             None))
      else
        (let st = Query_Get (query r) ''state'' in
         if st \<noteq> state g then
           ([Respond (http_Error ''Invalid state parameter'' 403)], None)
         else
           (let code = Query_Get (query r) ''code'' in
            if code = [] then
              ([Respond (http_Error ''No authorization code'' 400)], None)
            else
              (case exchangeCodeForToken e g r code of
                 (fx, Inl err) \<Rightarrow>
                   (fx @ [Respond (http_Error (''Failed to get token: '' @ err) 500)], None)
               | (fx, Inr token) \<Rightarrow>
                   (fx @ [Respond Success_page], Some token)))))"

text \<open>
  The \<open>select\<close> of \<open>Login\<close>: the requests are handled one after the other; the first
  handler that reaches \<open>ch <- token\<close> hands its token over, and when the requests that
  came before the timer are used up, the timer wins and nothing is received. Handlers
  that run at the same time, and handlers that are still running when the timer fires,
  are outside this model.
\<close>

fun await :: "env \<Rightarrow> globals \<Rightarrow> callback list \<Rightarrow> effect list \<times> Token option" where
  "await e g [] = ([], None)"
| "await e g (r # rs) =
     (case completeAuthHandler e g r of
        (fx, Some token) \<Rightarrow> (fx, Some token)
      | (fx, None) \<Rightarrow> (case await e g rs of (fx', received) \<Rightarrow> (fx @ fx', received)))"

text \<open>
  The second half of \<open>Login\<close>, from \<open>initPKCE()\<close> to the end: the interactive login.
  \<open>http.HandleFunc\<close> registers on \<open>http.DefaultServeMux\<close>, the mux of the whole
  process, and the server, which has no handler of its own, serves from that mux. The
  documentation of \<open>net/http\<close> says of the registration: if the given pattern
  conflicts with one that is already registered, \<open>Handle\<close> panics. Nothing in the
  repository removes a handler or recovers from a panic. The text of the panic here is
  the one of Go before 1.22; later versions word it differently.
\<close>

definition Login_interactive :: "env \<Rightarrow> globals \<Rightarrow> login_result \<times> globals \<times> effect list" where
  "Login_interactive e g =
     (let g1 = initPKCE e g in
      if handlerRegistered g1
      then (Panics ''http: multiple registrations for /'', g1, [HandleFunc ''/''])
      else
        (let g2 = g1\<lparr>handlerRegistered := True\<rparr>;
             url = buildAuthURL g2;
             fx = [HandleFunc ''/'', ListenAndServe '':1069'', OpenBrowser (fst url) (snd url)]
         in (case await e g2 (callbacks e) of
               (fx', None) \<Rightarrow>
                 (Returns [] [] (Some ''authentication timeout after 5 minutes''),
                  g2, fx @ fx' @ [Shutdown])
             | (fx', Some token) \<Rightarrow>
                 (Returns (AccessToken token) (RefreshToken token) None,
                  g2\<lparr>cachedToken := Some token\<rparr>, fx @ fx' @ [Shutdown]))))"

definition Login :: "env \<Rightarrow> globals \<Rightarrow> login_result \<times> globals \<times> effect list" where
  "Login e g =
     (if cachedToken g \<noteq> None \<and> isTokenValid (cachedToken g) (clock e) then
        (Returns (AccessToken (the (cachedToken g))) (RefreshToken (the (cachedToken g))) None,
         g, [])
      else if cachedToken g \<noteq> None \<and> \<not> isTokenValid (cachedToken g) (clock e + int (elapsed e)) then
        (case refreshToken e (the (cachedToken g)) of
           (fx, Inr newToken) \<Rightarrow>
             (Returns (AccessToken newToken) (RefreshToken newToken) None,
              g\<lparr>cachedToken := Some newToken\<rparr>, fx)
         | (fx, Inl err) \<Rightarrow>
             (case Login_interactive e g of (res, g', fx') \<Rightarrow> (res, g', fx @ fx')))
      else Login_interactive e g)"

text \<open>\<open>GetAccessToken\<close>: the access token and the error of \<open>Login\<close>, or its panic.\<close>

definition GetAccessToken :: "env \<Rightarrow> globals \<Rightarrow> (string \<times> string option) option \<times> globals \<times> effect list" where
  "GetAccessToken e g =
     (case Login e g of
        (Returns accessToken refToken err, g', fx) \<Rightarrow> (Some (accessToken, err), g', fx)
      | (Panics msg, g', fx) \<Rightarrow> (None, g', fx))"

subsection \<open>Notions used to state the properties\<close>

text \<open>
  A callback request that carries a failure: an \<open>error\<close> parameter, a \<open>state\<close> that
  is not the attempt's, or no \<open>code\<close>.
\<close>

definition callback_failure :: "globals \<Rightarrow> callback \<Rightarrow> bool" where
  "callback_failure g r =
     (Query_Get (query r) ''error'' \<noteq> []
      \<or> Query_Get (query r) ''state'' \<noteq> state g
      \<or> Query_Get (query r) ''code'' = [])"

text \<open>
  The exchange of a request's code fails: a network error, a status other than 200, or
  a body that does not decode.
\<close>

definition exchange_fails :: "env \<Rightarrow> callback \<Rightarrow> bool" where
  "exchange_fails e r =
     (case token_reply r of
        Transport_error err \<Rightarrow> True
      | Response status body \<Rightarrow> status \<noteq> 200 \<or> isl (json_Decode e body))"

text \<open>A call of the token endpoint, and a call of it with the refresh grant.\<close>

fun is_token_call :: "effect \<Rightarrow> bool" where
  "is_token_call (PostForm url data) = (url = tokenURL)"
| "is_token_call x = False"

fun is_refresh_call :: "effect \<Rightarrow> bool" where
  "is_refresh_call (PostForm url data) =
     (url = tokenURL \<and> map_of data ''grant_type'' = Some ''refresh_token'')"
| "is_refresh_call x = False"

text \<open>
  Whether the listener is accepting requests after a sequence of effects:
  \<open>ListenAndServe\<close> opens it and \<open>Shutdown\<close> closes it.
\<close>

fun listening :: "effect list \<Rightarrow> bool \<Rightarrow> bool" where
  "listening [] b = b"
| "listening (ListenAndServe addr # fx) b = listening fx True"
| "listening (Shutdown # fx) b = listening fx False"
| "listening (x # fx) b = listening fx b"

text \<open>
  The package variables as the handler of an attempt sees them: after \<open>initPKCE()\<close>
  and the registration of the handler.
\<close>

definition attempt_globals :: "env \<Rightarrow> globals \<Rightarrow> globals" where
  "attempt_globals e g = (initPKCE e g)\<lparr>handlerRegistered := True\<rparr>"

text \<open>The call of the token endpoint that \<open>refreshToken\<close> makes for a token.\<close>

definition refresh_call :: "Token \<Rightarrow> effect" where
  "refresh_call t =
     PostForm tokenURL
       [(''client_id'', clientID), (''grant_type'', ''refresh_token''),
        (''refresh_token'', RefreshToken t)]"

definition timeout_error :: string where
  "timeout_error = ''authentication timeout after 5 minutes''"

text \<open>A process that has not logged in yet.\<close>

definition new_process :: globals where
  "new_process =
     \<lparr>state = [], codeVerifier = [], codeChallenge = [], cachedToken = None,
      handlerRegistered = False\<rparr>"


subsection \<open>Concrete inputs\<close>

text \<open>
  The octets of Appendix B of RFC 7636: a verifier of 32 random octets and the SHA-256
  hash of its encoding.
\<close>

definition rfc7636_octets :: "byte list" where
  "rfc7636_octets =
     [116, 24, 223, 180, 151, 153, 224, 37, 79, 250, 96, 125, 216, 173, 187, 186,
      22, 212, 37, 77, 105, 214, 191, 240, 91, 88, 5, 88, 83, 132, 141, 121]"

definition rfc7636_hash :: "byte list" where
  "rfc7636_hash =
     [19, 211, 30, 150, 26, 26, 216, 236, 47, 22, 177, 12, 76, 152, 46, 8,
      118, 168, 120, 173, 109, 241, 68, 86, 110, 225, 137, 74, 203, 112, 249, 195]"

text \<open>
  A decoder that knows three bodies: \<open>{}\<close>, which Go decodes to the zero value of every
  field, one body with a new access token, a lifetime of an hour and no refresh token,
  and one with an access token, a lifetime of an hour and a refresh token.
\<close>

definition example_Decode :: "string \<Rightarrow> string + tokenResp" where
  "example_Decode body =
     (if body = ''{}'' then
        Inr \<lparr>access_token = [], token_type = [], expires_in = 0, refresh_token = [], scope = []\<rparr>
      else if body = ''{access_token:NEW,token_type:Bearer,expires_in:3600}'' then
        Inr \<lparr>access_token = ''NEW'', token_type = ''Bearer'', expires_in = 3600,
             refresh_token = [], scope = []\<rparr>
      else if body = ''{access_token:A1,token_type:Bearer,expires_in:3600,refresh_token:R1}'' then
        Inr \<lparr>access_token = ''A1'', token_type = ''Bearer'', expires_in = 3600,
             refresh_token = ''R1'', scope = []\<rparr>
      else Inl ''invalid character'')"

text \<open>
  An outside world in which the random source gives sixteen zero bytes and then the
  octets of the RFC, the token endpoint cannot be reached for a refresh, and no callback
  arrives.
\<close>

definition example_env :: env where
  "example_env =
     \<lparr>Sum256 = (\<lambda>bs. rfc7636_hash),
      json_Decode = example_Decode,
      rand_source = (\<lambda>i. if i < 16 then 0 else rfc7636_octets ! ((i - 16) mod 32)),
      clock = 1000 * Second,
      elapsed = 1,
      refresh_reply = Transport_error ''connection refused'',
      refresh_time = 1001 * Second,
      callbacks = []\<rparr>"

definition old_token :: Token where
  "old_token =
     \<lparr>AccessToken = ''OLD'', TokenType = ''Bearer'', RefreshToken = ''R1'',
      Expiry = 1100 * Second\<rparr>"

text \<open>A request whose user refused the authorization.\<close>

definition denied_request :: callback where
  "denied_request =
     \<lparr>query = [(''error'', ''access_denied''), (''state'', ''AAAAAAAAAAAAAAAAAAAAAA'')],
      token_reply = Response 200 ''{access_token:NEW,token_type:Bearer,expires_in:3600}'',
      token_time = 1002 * Second\<rparr>"

text \<open>
  A request with the state of \<open>example_env\<close> and a code, which the token endpoint
  answers with the given reply.
\<close>

definition code_request :: "post_reply \<Rightarrow> callback" where
  "code_request reply =
     \<lparr>query = [(''code'', ''c0de''), (''state'', ''AAAAAAAAAAAAAAAAAAAAAA'')],
      token_reply = reply,
      token_time = 1002 * Second\<rparr>"

text \<open>A request with an \<open>error\<close> parameter and a state that is not the attempt's.\<close>

definition forged_request :: callback where
  "forged_request =
     \<lparr>query = [(''error'', ''access_denied''), (''state'', ''forged'')],
      token_reply = Transport_error ''connection refused'',
      token_time = 1002 * Second\<rparr>"

text \<open>A request with a code and a state that is not the attempt's.\<close>

definition foreign_request :: callback where
  "foreign_request =
     \<lparr>query = [(''code'', ''c0de''), (''state'', ''forged'')],
      token_reply = Response 200 ''{}'',
      token_time = 1002 * Second\<rparr>"

text \<open>
  The outside world of \<open>example_env\<close> with two callbacks that hand nothing over: the
  refused one, and one with a code that the token endpoint rejects.
\<close>

definition failing_env :: env where
  "failing_env =
     example_env\<lparr>callbacks := [denied_request, code_request (Response 400 ''invalid_grant'')]\<rparr>"

text \<open>
  Two calls of \<open>Login\<close> in one process. In the first the user agrees and the token
  endpoint gives \<open>first_token\<close>. The second comes when that token has expired, and
  the token endpoint cannot be reached for the refresh.
\<close>

definition first_env :: env where
  "first_env =
     example_env\<lparr>callbacks :=
       [code_request (Response 200
          ''{access_token:A1,token_type:Bearer,expires_in:3600,refresh_token:R1}'')]\<rparr>"

definition first_token :: Token where
  "first_token =
     \<lparr>AccessToken = ''A1'', TokenType = ''Bearer'', RefreshToken = ''R1'',
      Expiry = 4602 * Second\<rparr>"

definition later_env :: env where
  "later_env = example_env\<lparr>clock := 5000 * Second\<rparr>"

section \<open>Properties\<close>

subsection \<open>The encoder\<close>

lemma length_encodeURL: "length encodeURL = 64"
  by (simp add: encodeURL_def)

lemma enc6_alphabet: "enc6 v \<in> set encodeURL"
  unfolding enc6_def by (rule nth_mem) (simp add: length_encodeURL)

lemma EncodeToString_alphabet: "set (EncodeToString bs) \<subseteq> set encodeURL"
  by (induction bs rule: EncodeToString.induct) (simp_all add: Let_def enc6_alphabet)

lemma EncodeToString_length: "length (EncodeToString bs) = (length bs * 8 + 5) div 6"
  by (induction bs rule: EncodeToString.induct) (simp_all add: Let_def)

lemma padding_not_in_alphabet: "CHR ''='' \<notin> set encodeURL"
  by (simp add: encodeURL_def)

lemma plus_slash_not_in_alphabet: "CHR ''+'' \<notin> set encodeURL \<and> CHR ''/'' \<notin> set encodeURL"
  by (simp add: encodeURL_def)

lemma length_rand_Read: "length (rand_Read rnd pos len) = len"
  by (simp add: rand_Read_def)

lemma EncodeToString_url_safe:
  "c \<in> set (EncodeToString bs) \<Longrightarrow> c \<in> set encodeURL \<and> c \<noteq> CHR ''='' \<and> c \<noteq> CHR ''+'' \<and> c \<noteq> CHR ''/''"
  using EncodeToString_alphabet [of bs] padding_not_in_alphabet plus_slash_not_in_alphabet
  by blast

text \<open>
  C8. The code challenge of a verifier is the encoding, in the URL alphabet without
  padding, of the SHA-256 hash of the verifier's bytes; it is a function of the verifier
  alone, made of characters of the URL alphabet only (no \<open>=\<close>, \<open>+\<close> or \<open>/\<close>), and 43
  characters long for a hash of 32 bytes. \<open>initPKCE\<close> sets \<open>state\<close> to the encoding of
  16 bytes of the random source and \<open>codeVerifier\<close> to the encoding of the next 32,
  both in the same alphabet without padding (22 and 43 characters), and
  \<open>codeChallenge\<close> to the challenge of that verifier.
\<close>

theorem C8_pkce_parameters:
  "generateCodeChallenge H verifier = EncodeToString (H (bytes_of verifier))
   \<and> (\<forall>c \<in> set (generateCodeChallenge H verifier).
         c \<in> set encodeURL \<and> c \<noteq> CHR ''='' \<and> c \<noteq> CHR ''+'' \<and> c \<noteq> CHR ''/'')
   \<and> (length (H (bytes_of verifier)) = 32 \<longrightarrow> length (generateCodeChallenge H verifier) = 43)
   \<and> state (initPKCE e g) = EncodeToString (rand_Read (rand_source e) 0 16)
   \<and> codeVerifier (initPKCE e g) = EncodeToString (rand_Read (rand_source e) 16 32)
   \<and> length (rand_Read (rand_source e) 0 16) = 16
   \<and> length (rand_Read (rand_source e) 16 32) = 32
   \<and> length (state (initPKCE e g)) = 22
   \<and> length (codeVerifier (initPKCE e g)) = 43
   \<and> (\<forall>c \<in> set (state (initPKCE e g) @ codeVerifier (initPKCE e g)).
         c \<in> set encodeURL \<and> c \<noteq> CHR ''='' \<and> c \<noteq> CHR ''+'' \<and> c \<noteq> CHR ''/'')
   \<and> codeChallenge (initPKCE e g) = generateCodeChallenge (Sum256 e) (codeVerifier (initPKCE e g))"
proof -
  have st: "state (initPKCE e g) = EncodeToString (rand_Read (rand_source e) 0 16)"
    by (simp add: initPKCE_def Let_def generateRandomString_def)
  have ver: "codeVerifier (initPKCE e g) = EncodeToString (rand_Read (rand_source e) 16 32)"
    by (simp add: initPKCE_def Let_def generateCodeVerifier_def generateRandomString_def)
  have chal: "codeChallenge (initPKCE e g)
      = generateCodeChallenge (Sum256 e) (codeVerifier (initPKCE e g))"
    by (simp add: initPKCE_def Let_def)
  have safe: "\<forall>c \<in> set (generateCodeChallenge H verifier).
      c \<in> set encodeURL \<and> c \<noteq> CHR ''='' \<and> c \<noteq> CHR ''+'' \<and> c \<noteq> CHR ''/''"
    unfolding generateCodeChallenge_def using EncodeToString_url_safe by blast
  have len: "length (H (bytes_of verifier)) = 32 \<longrightarrow> length (generateCodeChallenge H verifier) = 43"
    by (simp add: generateCodeChallenge_def EncodeToString_length)
  have safe2: "\<forall>c \<in> set (state (initPKCE e g) @ codeVerifier (initPKCE e g)).
      c \<in> set encodeURL \<and> c \<noteq> CHR ''='' \<and> c \<noteq> CHR ''+'' \<and> c \<noteq> CHR ''/''"
    unfolding st ver using EncodeToString_url_safe by auto
  have l1: "length (state (initPKCE e g)) = 22"
    unfolding st by (simp add: EncodeToString_length length_rand_Read)
  have l2: "length (codeVerifier (initPKCE e g)) = 43"
    unfolding ver by (simp add: EncodeToString_length length_rand_Read)
  have def: "generateCodeChallenge H verifier = EncodeToString (H (bytes_of verifier))"
    by (simp add: generateCodeChallenge_def)
  have r1: "length (rand_Read (rand_source e) 0 16) = 16"
    by (rule length_rand_Read)
  have r2: "length (rand_Read (rand_source e) 16 32) = 32"
    by (rule length_rand_Read)
  from def safe len st ver r1 r2 l1 l2 safe2 chal show ?thesis
    by (intro conjI)
qed


lemma initPKCE_keeps [simp]:
  "cachedToken (initPKCE e g) = cachedToken g"
  "handlerRegistered (initPKCE e g) = handlerRegistered g"
  by (simp_all add: initPKCE_def Let_def)

lemma example_state: "state (initPKCE example_env g) = ''AAAAAAAAAAAAAAAAAAAAAA''"
  by (simp add: initPKCE_def Let_def generateRandomString_def rand_Read_def example_env_def
      enc6_def encodeURL_def upt_rec)

lemma example_verifier:
  "codeVerifier (initPKCE example_env g) = ''dBjftJeZ4CVP-mB92K27uhbUJU1p1r_wW1gFWFOEjXk''"
  by (simp add: initPKCE_def Let_def generateRandomString_def generateCodeVerifier_def
      rand_Read_def example_env_def enc6_def encodeURL_def rfc7636_octets_def upt_rec)

lemma example_challenge:
  "generateCodeChallenge (\<lambda>bs. rfc7636_hash) v = ''E9Melhoa2OwvFrEMTJguCHaoeK1t8URWbuGJSstw-cM''"
  by (simp add: generateCodeChallenge_def enc6_def encodeURL_def rfc7636_hash_def)

text \<open>
  At the verifier of RFC 7636 the challenge is the one the RFC gives, and the state and
  verifier drawn from \<open>example_env\<close> are the encodings of its random bytes.
\<close>

theorem C8_pkce_parameters_witness:
  "length ((\<lambda>bs. rfc7636_hash) (bytes_of ''dBjftJeZ4CVP-mB92K27uhbUJU1p1r_wW1gFWFOEjXk'')) = 32
   \<and> generateCodeChallenge (\<lambda>bs. rfc7636_hash) ''dBjftJeZ4CVP-mB92K27uhbUJU1p1r_wW1gFWFOEjXk''
       = ''E9Melhoa2OwvFrEMTJguCHaoeK1t8URWbuGJSstw-cM''
   \<and> length (generateCodeChallenge (\<lambda>bs. rfc7636_hash) ''dBjftJeZ4CVP-mB92K27uhbUJU1p1r_wW1gFWFOEjXk'') = 43
   \<and> state (initPKCE example_env new_process) = ''AAAAAAAAAAAAAAAAAAAAAA''
   \<and> codeVerifier (initPKCE example_env new_process) = ''dBjftJeZ4CVP-mB92K27uhbUJU1p1r_wW1gFWFOEjXk''
   \<and> CHR ''='' \<notin> set (state (initPKCE example_env new_process)
                         @ codeVerifier (initPKCE example_env new_process))"
proof -
  note C8 = C8_pkce_parameters [of "\<lambda>bs. rfc7636_hash"
      "''dBjftJeZ4CVP-mB92K27uhbUJU1p1r_wW1gFWFOEjXk''" example_env new_process]
  have hash: "length rfc7636_hash = 32"
    by (simp add: rfc7636_hash_def)
  from C8 [THEN conjunct2, THEN conjunct2, THEN conjunct1] hash
  have len: "length (generateCodeChallenge (\<lambda>bs. rfc7636_hash)
      ''dBjftJeZ4CVP-mB92K27uhbUJU1p1r_wW1gFWFOEjXk'') = 43"
    by (rule mp)
  note safe = C8 [THEN conjunct2, THEN conjunct2, THEN conjunct2, THEN conjunct2,
      THEN conjunct2, THEN conjunct2, THEN conjunct2, THEN conjunct2, THEN conjunct2,
      THEN conjunct1]
  from safe have nopad: "CHR ''='' \<notin> set (state (initPKCE example_env new_process)
      @ codeVerifier (initPKCE example_env new_process))"
    by blast
  from hash example_challenge len example_state example_verifier nopad show ?thesis
    by (intro conjI)
qed

subsection \<open>The callback handler and the wait\<close>

lemma exchange_effects:
  "fst (exchangeCodeForToken e g r code) =
     [PostForm tokenURL [(''client_id'', clientID), (''grant_type'', ''authorization_code''),
        (''code'', code), (''redirect_uri'', redirectURI), (''code_verifier'', codeVerifier g)]]"
  by (simp add: exchangeCodeForToken_def)

lemma exchange_fails_iff:
  "exchange_fails e r \<longleftrightarrow> isl (snd (exchangeCodeForToken e g r code))"
  by (simp add: exchangeCodeForToken_def exchange_fails_def
      split: post_reply.splits sum.splits)

lemma handler_rejects:
  assumes "callback_failure g r"
  shows "completeAuthHandler e g r =
     (if Query_Get (query r) ''error'' \<noteq> [] then
        ([Respond (http_Error (''Authentication error: '' @ Query_Get (query r) ''error''
            @ '' - '' @ Query_Get (query r) ''error_description'') 403)], None)
      else if Query_Get (query r) ''state'' \<noteq> state g then
        ([Respond (http_Error ''Invalid state parameter'' 403)], None)
      else ([Respond (http_Error ''No authorization code'' 400)], None))"
  using assms by (simp add: completeAuthHandler_def callback_failure_def Let_def)

lemma handler_exchanges:
  assumes "\<not> callback_failure g r"
  shows "completeAuthHandler e g r =
     (case exchangeCodeForToken e g r (Query_Get (query r) ''code'') of
        (fx, Inl err) \<Rightarrow> (fx @ [Respond (http_Error (''Failed to get token: '' @ err) 500)], None)
      | (fx, Inr token) \<Rightarrow> (fx @ [Respond Success_page], Some token))"
  using assms
  by (simp add: completeAuthHandler_def callback_failure_def Let_def
      split: prod.splits sum.splits)

lemma handler_delivers_iff:
  "snd (completeAuthHandler e g r) \<noteq> None \<longleftrightarrow> \<not> callback_failure g r \<and> \<not> exchange_fails e r"
proof (cases "callback_failure g r")
  case True
  then show ?thesis by (simp add: handler_rejects)
next
  case False
  then show ?thesis
    by (simp add: handler_exchanges exchange_fails_iff [of e r g "Query_Get (query r) ''code''"]
        split: prod.splits sum.splits)
qed

lemma await_skip:
  assumes "snd (completeAuthHandler e g r) = None"
  shows "await e g (r # rs) = (fst (completeAuthHandler e g r) @ fst (await e g rs), snd (await e g rs))"
  using assms by (cases "completeAuthHandler e g r") (simp split: prod.splits)

lemma await_none:
  assumes "\<forall>r\<in>set rs. snd (completeAuthHandler e g r) = None"
  shows "await e g rs = (concat (map (\<lambda>r. fst (completeAuthHandler e g r)) rs), None)"
  using assms by (induction rs) (simp_all add: await_skip del: await.simps(2))

text \<open>
  C3, as the code has it. The handler looks at the \<open>error\<close> parameter first and compares
  the \<open>state\<close> second, before it reads the code and before any exchange. Every request
  whose \<open>state\<close> is not the attempt's is answered with status 403, by the state check
  when the request has no \<open>error\<close> parameter and by the error check when it has one; in
  both cases the handler does nothing else: no call of the token endpoint, nothing sent
  to \<open>Login\<close>.
\<close>

theorem C3_state_mismatch_rejected:
  assumes "Query_Get (query r) ''state'' \<noteq> state g"
  shows "completeAuthHandler e g r =
           ([Respond (http_Error
               (if Query_Get (query r) ''error'' = [] then ''Invalid state parameter''
                else ''Authentication error: '' @ Query_Get (query r) ''error''
                     @ '' - '' @ Query_Get (query r) ''error_description'') 403)], None)"
  using assms by (simp add: completeAuthHandler_def Let_def)


text \<open>
  A request with a matching \<open>state\<close> is not concerned, one with a foreign \<open>state\<close> and
  no \<open>error\<close> parameter gets the state rejection.
\<close>

theorem C3_state_mismatch_rejected_witness:
  "Query_Get (query foreign_request) ''state'' \<noteq> state (initPKCE example_env new_process)
   \<and> completeAuthHandler example_env (initPKCE example_env new_process) foreign_request
       = ([Respond (http_Error ''Invalid state parameter'' 403)], None)"
  using C3_state_mismatch_rejected [of foreign_request
      "initPKCE example_env new_process" example_env]
  by (simp add: example_state Query_Get_def foreign_request_def)

text \<open>
  The claim as it is written fails: for a request with a foreign \<open>state\<close> that also
  carries an \<open>error\<close> parameter, the answer is the one of the error check, which the
  handler makes before it compares the state.
\<close>

theorem C3_counterexample:
  "Query_Get (query forged_request) ''state'' \<noteq> state (initPKCE example_env new_process)
   \<and> completeAuthHandler example_env (initPKCE example_env new_process) forged_request
       = ([Respond (http_Error ''Authentication error: access_denied - '' 403)], None)
   \<and> completeAuthHandler example_env (initPKCE example_env new_process) forged_request
       \<noteq> ([Respond (http_Error ''Invalid state parameter'' 403)], None)"
  by (simp add: example_state Query_Get_def forged_request_def completeAuthHandler_def Let_def)

subsection \<open>The token endpoint\<close>

text \<open>
  C7. Every refresh that succeeds got status 200 and a body that decodes; the new token
  has the refresh token of the response when the response has one, and the refresh token
  of the old token when the response's \<open>refresh_token\<close> is empty.
\<close>

theorem C7_refresh_token_retained:
  assumes "snd (refreshToken e oldToken) = Inr token"
  shows "\<exists>body tr. refresh_reply e = Response 200 body \<and> json_Decode e body = Inr tr
           \<and> AccessToken token = access_token tr
           \<and> (refresh_token tr = [] \<longrightarrow> RefreshToken token = RefreshToken oldToken)
           \<and> (refresh_token tr \<noteq> [] \<longrightarrow> RefreshToken token = refresh_token tr)"
  using assms
  by (auto simp add: refreshToken_def Let_def split: post_reply.splits sum.splits if_splits)


lemma Duration_seconds_hour: "Duration_seconds 3600 = 3600 * Second"
  by (simp add: Duration_seconds_def Second_def)

text \<open>
  A refresh whose response has no \<open>refresh_token\<close>: the new token keeps \<open>R1\<close>, the
  refresh token of the old one.
\<close>

theorem C7_refresh_token_retained_witness:
  "snd (refreshToken
         (example_env\<lparr>refresh_reply :=
            Response 200 ''{access_token:NEW,token_type:Bearer,expires_in:3600}''\<rparr>) old_token)
     = Inr \<lparr>AccessToken = ''NEW'', TokenType = ''Bearer'', RefreshToken = ''R1'',
            Expiry = 4601 * Second\<rparr>
   \<and> RefreshToken old_token = ''R1''
   \<and> (\<exists>body tr. refresh_reply (example_env\<lparr>refresh_reply :=
            Response 200 ''{access_token:NEW,token_type:Bearer,expires_in:3600}''\<rparr>)
          = Response 200 body
        \<and> json_Decode example_env body = Inr tr \<and> refresh_token tr = [])"
proof -
  let ?e = "example_env\<lparr>refresh_reply :=
      Response 200 ''{access_token:NEW,token_type:Bearer,expires_in:3600}''\<rparr>"
  let ?new = "\<lparr>AccessToken = ''NEW'', TokenType = ''Bearer'', RefreshToken = ''R1'',
      Expiry = 4601 * Second\<rparr>"
  have run: "snd (refreshToken ?e old_token) = Inr ?new"
    by (simp add: refreshToken_def example_env_def example_Decode_def old_token_def
        Duration_seconds_hour Second_def)
  have old: "RefreshToken old_token = ''R1''"
    by (simp add: old_token_def)
  from C7_refresh_token_retained [OF run]
  have "\<exists>body tr. refresh_reply ?e = Response 200 body
      \<and> json_Decode example_env body = Inr tr \<and> refresh_token tr = []"
    by (auto simp add: example_env_def example_Decode_def split: if_splits)
  with run old show ?thesis by (intro conjI)
qed

subsection \<open>\<open>Login\<close>\<close>

lemma refresh_effects:
  "fst (refreshToken e t) =
     [PostForm tokenURL [(''client_id'', clientID), (''grant_type'', ''refresh_token''),
        (''refresh_token'', RefreshToken t)]]"
  by (simp add: refreshToken_def)

lemma stale_stays_stale:
  "\<not> isTokenValid tok now \<Longrightarrow> \<not> isTokenValid tok (now + int d)"
  by (cases tok) (simp_all add: isTokenValid_def)

lemma Login_fresh:
  assumes "cachedToken g = Some t" and "isTokenValid (Some t) (clock e)"
  shows "Login e g = (Returns (AccessToken t) (RefreshToken t) None, g, [])"
  using assms by (simp add: Login_def)

lemma Login_no_cache:
  assumes "cachedToken g = None"
  shows "Login e g = Login_interactive e g"
  using assms by (simp add: Login_def)

lemma Login_stale:
  assumes "cachedToken g = Some t" and "\<not> isTokenValid (Some t) (clock e)"
  shows "Login e g =
     (case refreshToken e t of
        (fx, Inr newToken) \<Rightarrow>
          (Returns (AccessToken newToken) (RefreshToken newToken) None,
           g\<lparr>cachedToken := Some newToken\<rparr>, fx)
      | (fx, Inl err) \<Rightarrow>
          (case Login_interactive e g of (res, g', fx') \<Rightarrow> (res, g', fx @ fx')))"
  using assms stale_stays_stale [of "Some t" "clock e" "elapsed e"]
  by (simp add: Login_def)

text \<open>
  C5. When the cached token expires more than five minutes after the reading of the clock,
  \<open>Login\<close> returns its access and refresh tokens with no error, leaves the package
  variables as they are and does nothing to the outside world: no call of the token
  endpoint, no listener, no browser.
\<close>

theorem C5_fresh_token_returned:
  assumes "cachedToken g = Some token"
    and "Expiry token > clock e + 5 * Minute"
  shows "Login e g = (Returns (AccessToken token) (RefreshToken token) None, g, [])"
  using assms by (simp add: Login_fresh isTokenValid_def)

theorem C5_fresh_token_returned_witness:
  "cachedToken (new_process\<lparr>cachedToken := Some old_token\<rparr>) = Some old_token
   \<and> Expiry old_token > clock (example_env\<lparr>clock := 0\<rparr>) + 5 * Minute
   \<and> Login (example_env\<lparr>clock := 0\<rparr>) (new_process\<lparr>cachedToken := Some old_token\<rparr>)
       = (Returns ''OLD'' ''R1'' None, new_process\<lparr>cachedToken := Some old_token\<rparr>, [])"
proof -
  have c: "cachedToken (new_process\<lparr>cachedToken := Some old_token\<rparr>) = Some old_token"
    by simp
  have f: "Expiry old_token > clock (example_env\<lparr>clock := 0\<rparr>) + 5 * Minute"
    by (simp add: old_token_def Minute_def Second_def)
  from C5_fresh_token_returned [OF c f] c f show ?thesis
    by (simp add: old_token_def)
qed


subsection \<open>The interactive login\<close>

lemma callback_failure_attempt [simp]:
  "callback_failure (attempt_globals e g) r = callback_failure (initPKCE e g) r"
  by (simp add: callback_failure_def attempt_globals_def)

lemma cachedToken_attempt [simp]: "cachedToken (attempt_globals e g) = cachedToken g"
  by (simp add: attempt_globals_def)

lemma Login_interactive_panics:
  assumes "handlerRegistered g"
  shows "Login_interactive e g =
           (Panics ''http: multiple registrations for /'', initPKCE e g, [HandleFunc ''/''])"
  using assms by (simp add: Login_interactive_def Let_def)

lemma Login_interactive_runs:
  assumes "\<not> handlerRegistered g"
  shows "Login_interactive e g =
     (case await e (attempt_globals e g) (callbacks e) of
        (fx', None) \<Rightarrow>
          (Returns [] [] (Some timeout_error), attempt_globals e g,
           [HandleFunc ''/'', ListenAndServe '':1069'',
            OpenBrowser (fst (buildAuthURL (attempt_globals e g)))
              (snd (buildAuthURL (attempt_globals e g)))] @ fx' @ [Shutdown])
      | (fx', Some token) \<Rightarrow>
          (Returns (AccessToken token) (RefreshToken token) None,
           (attempt_globals e g)\<lparr>cachedToken := Some token\<rparr>,
           [HandleFunc ''/'', ListenAndServe '':1069'',
            OpenBrowser (fst (buildAuthURL (attempt_globals e g)))
              (snd (buildAuthURL (attempt_globals e g)))] @ fx' @ [Shutdown]))"
  using assms
  by (simp add: Login_interactive_def Let_def attempt_globals_def timeout_error_def
      split: prod.splits option.splits)

text \<open>
  What the handler and the interactive login read of the outside world: the decoder,
  the random source, the hash and the callbacks; not the clock and not the answer to a
  refresh.
\<close>

lemma exchange_env:
  assumes "json_Decode e' = json_Decode e"
  shows "exchangeCodeForToken e' g r code = exchangeCodeForToken e g r code"
  using assms
  by (simp add: exchangeCodeForToken_def Let_def split: post_reply.splits sum.splits)

lemma handler_env:
  assumes "json_Decode e' = json_Decode e"
  shows "completeAuthHandler e' g r = completeAuthHandler e g r"
  using assms by (simp add: completeAuthHandler_def Let_def exchange_env [of e' e])

lemma await_env:
  assumes "json_Decode e' = json_Decode e"
  shows "await e' g rs = await e g rs"
  using assms by (induction rs) (simp_all add: handler_env [of e' e])

lemma initPKCE_env:
  assumes "rand_source e' = rand_source e" and "Sum256 e' = Sum256 e"
  shows "initPKCE e' g = initPKCE e g"
  using assms by (simp add: initPKCE_def Let_def)

lemma Login_interactive_env:
  assumes "json_Decode e' = json_Decode e" and "rand_source e' = rand_source e"
    and "Sum256 e' = Sum256 e" and "callbacks e' = callbacks e"
  shows "Login_interactive e' g = Login_interactive e g"
  using assms
  by (simp add: Login_interactive_def Let_def initPKCE_env [of e' e] await_env [of e' e])

lemma refreshToken_env:
  assumes "json_Decode e' = json_Decode e" and "refresh_reply e' = refresh_reply e"
    and "refresh_time e' = refresh_time e"
  shows "refreshToken e' t = refreshToken e t"
  using assms
  by (simp add: refreshToken_def Let_def split: post_reply.splits sum.splits)

text \<open>The requests that hand no token over are the failed ones.\<close>

lemma await_all_fail:
  assumes "\<forall>r\<in>set rs. callback_failure g r \<or> exchange_fails e r"
  shows "snd (await e g rs) = None"
proof -
  from assms have "\<forall>r\<in>set rs. snd (completeAuthHandler e g r) = None"
    using handler_delivers_iff [of e g] by blast
  then show ?thesis by (simp add: await_none)
qed

lemma await_skip_failed:
  assumes "callback_failure g r \<or> exchange_fails e r"
  shows "snd (await e g (r # rs)) = snd (await e g rs)"
proof -
  from assms have "snd (completeAuthHandler e g r) = None"
    using handler_delivers_iff [of e g r] by blast
  then show ?thesis by (simp add: await_skip del: await.simps)
qed

lemma Login_interactive_result:
  "fst (Login_interactive e g) =
     (if handlerRegistered g then Panics ''http: multiple registrations for /''
      else case snd (await e (attempt_globals e g) (callbacks e)) of
             None \<Rightarrow> Returns [] [] (Some timeout_error)
           | Some token \<Rightarrow> Returns (AccessToken token) (RefreshToken token) None)"
  by (simp add: Login_interactive_panics Login_interactive_runs
      split: prod.splits option.splits)

lemma Login_interactive_globals:
  "fst (snd (Login_interactive e g)) =
     (if handlerRegistered g then initPKCE e g
      else case snd (await e (attempt_globals e g) (callbacks e)) of
             None \<Rightarrow> attempt_globals e g
           | Some token \<Rightarrow> (attempt_globals e g)\<lparr>cachedToken := Some token\<rparr>)"
  by (simp add: Login_interactive_panics Login_interactive_runs
      split: prod.splits option.splits)

lemma Login_interactive_skip:
  assumes "callback_failure (initPKCE e g) r \<or> exchange_fails e r"
  shows "fst (Login_interactive (e\<lparr>callbacks := r # rs\<rparr>) g)
           = fst (Login_interactive (e\<lparr>callbacks := rs\<rparr>) g)"
    and "fst (snd (Login_interactive (e\<lparr>callbacks := r # rs\<rparr>) g))
           = fst (snd (Login_interactive (e\<lparr>callbacks := rs\<rparr>) g))"
proof -
  let ?e1 = "e\<lparr>callbacks := r # rs\<rparr>" and ?e2 = "e\<lparr>callbacks := rs\<rparr>"
  have g: "attempt_globals ?e1 g = attempt_globals e g" "attempt_globals ?e2 g = attempt_globals e g"
    "initPKCE ?e1 g = initPKCE e g" "initPKCE ?e2 g = initPKCE e g"
    by (simp_all add: attempt_globals_def initPKCE_env [of ?e1 e] initPKCE_env [of ?e2 e])
  have a: "await ?e1 (attempt_globals e g) (r # rs) = await e (attempt_globals e g) (r # rs)"
    "await ?e2 (attempt_globals e g) rs = await e (attempt_globals e g) rs"
    by (simp_all add: await_env [of ?e1 e] await_env [of ?e2 e] del: await.simps)
  from assms have "callback_failure (attempt_globals e g) r \<or> exchange_fails e r"
    by simp
  then have skip: "snd (await e (attempt_globals e g) (r # rs))
      = snd (await e (attempt_globals e g) rs)"
    by (rule await_skip_failed)
  show "fst (Login_interactive ?e1 g) = fst (Login_interactive ?e2 g)"
    by (simp add: Login_interactive_result g a skip del: await.simps split: option.splits)
  show "fst (snd (Login_interactive ?e1 g)) = fst (snd (Login_interactive ?e2 g))"
    by (simp add: Login_interactive_globals g a skip del: await.simps split: option.splits)
qed

lemma Login_skip:
  assumes "callback_failure (initPKCE e g) r \<or> exchange_fails e r"
  shows "fst (Login (e\<lparr>callbacks := r # rs\<rparr>) g) = fst (Login (e\<lparr>callbacks := rs\<rparr>) g)
       \<and> fst (snd (Login (e\<lparr>callbacks := r # rs\<rparr>) g))
           = fst (snd (Login (e\<lparr>callbacks := rs\<rparr>) g))"
proof -
  let ?e1 = "e\<lparr>callbacks := r # rs\<rparr>" and ?e2 = "e\<lparr>callbacks := rs\<rparr>"
  note skip = Login_interactive_skip [OF assms, of rs]
  have r: "\<And>t. refreshToken ?e1 t = refreshToken e t" "\<And>t. refreshToken ?e2 t = refreshToken e t"
    by (simp_all add: refreshToken_env [of ?e1 e] refreshToken_env [of ?e2 e])
  show ?thesis
    using skip
    by (auto simp add: Login_def r split: prod.splits sum.splits)
qed


lemma state_attempt [simp]: "state (attempt_globals e g) = state (initPKCE e g)"
  by (simp add: attempt_globals_def)

lemma listening_Shutdown: "listening (fx @ [Shutdown]) b = False"
  by (induction fx b rule: listening.induct) simp_all

lemma Login_reaches_interactive:
  assumes "cachedToken g = None
      \<or> (\<not> isTokenValid (cachedToken g) (clock e)
          \<and> isl (snd (refreshToken e (the (cachedToken g)))))"
  shows "fst (Login e g) = fst (Login_interactive e g)"
    and "fst (snd (Login e g)) = fst (snd (Login_interactive e g))"
    and "snd (snd (Login e g)) =
           (if cachedToken g = None then [] else fst (refreshToken e (the (cachedToken g))))
           @ snd (snd (Login_interactive e g))"
proof -
  show "fst (Login e g) = fst (Login_interactive e g)"
  proof (cases "cachedToken g")
    case None
    then show ?thesis by (simp add: Login_no_cache)
  next
    case (Some t)
    with assms show ?thesis
      by (auto simp add: Login_stale split: prod.splits sum.splits)
  qed
  show "fst (snd (Login e g)) = fst (snd (Login_interactive e g))"
  proof (cases "cachedToken g")
    case None
    then show ?thesis by (simp add: Login_no_cache)
  next
    case (Some t)
    with assms show ?thesis
      by (auto simp add: Login_stale split: prod.splits sum.splits)
  qed
  show "snd (snd (Login e g)) =
      (if cachedToken g = None then [] else fst (refreshToken e (the (cachedToken g))))
      @ snd (snd (Login_interactive e g))"
  proof (cases "cachedToken g")
    case None
    then show ?thesis by (simp add: Login_no_cache)
  next
    case (Some t)
    with assms show ?thesis
      by (auto simp add: Login_stale split: prod.splits sum.splits)
  qed
qed

lemma Login_interactive_timeout:
  assumes "\<not> handlerRegistered g"
    and "\<forall>r\<in>set (callbacks e). callback_failure (initPKCE e g) r \<or> exchange_fails e r"
  shows "Login_interactive e g =
           (Returns [] [] (Some timeout_error), attempt_globals e g,
            [HandleFunc ''/'', ListenAndServe '':1069'',
             OpenBrowser (fst (buildAuthURL (attempt_globals e g)))
               (snd (buildAuthURL (attempt_globals e g)))]
            @ fst (await e (attempt_globals e g) (callbacks e)) @ [Shutdown])"
proof -
  from assms(2) have "snd (await e (attempt_globals e g) (callbacks e)) = None"
    by (intro await_all_fail) simp
  with assms(1) show ?thesis
    by (cases "await e (attempt_globals e g) (callbacks e)")
      (simp add: Login_interactive_runs)
qed

text \<open>
  The timeout in a process that has not registered the handler yet. Take a call of
  \<open>Login\<close> that reaches the interactive login (no cached token, or a stale one whose
  refresh fails) and in which no request that arrives before the timer hands a token
  over (there is none, or each one carries a failure or has its exchange fail). Then
  \<open>Login\<close> returns the timeout error with empty tokens, and the last thing it does is to
  shut the server down: the listener, which it had opened, accepts nothing when
  \<open>Login\<close> returns. The five minutes themselves are not modelled: \<open>callbacks\<close> holds
  what comes before the timer fires.
\<close>

lemma first_login_times_out:
  assumes "cachedToken g = None
      \<or> (\<not> isTokenValid (cachedToken g) (clock e)
          \<and> isl (snd (refreshToken e (the (cachedToken g)))))"
    and "\<not> handlerRegistered g"
    and "\<forall>r\<in>set (callbacks e). callback_failure (initPKCE e g) r \<or> exchange_fails e r"
  shows "fst (Login e g) = Returns [] [] (Some timeout_error)
       \<and> (\<exists>fx. snd (snd (Login e g)) = fx @ [Shutdown] \<and> ListenAndServe '':1069'' \<in> set fx)
       \<and> \<not> listening (snd (snd (Login e g))) b
       \<and> cachedToken (fst (snd (Login e g))) = cachedToken g"
proof -
  note run = Login_interactive_timeout [OF assms(2,3)]
  note reach = Login_reaches_interactive [OF assms(1)]
  let ?pre = "(if cachedToken g = None then [] else fst (refreshToken e (the (cachedToken g))))
      @ [HandleFunc ''/'', ListenAndServe '':1069'',
         OpenBrowser (fst (buildAuthURL (attempt_globals e g)))
           (snd (buildAuthURL (attempt_globals e g)))]
      @ fst (await e (attempt_globals e g) (callbacks e))"
  have fx: "snd (snd (Login e g)) = ?pre @ [Shutdown]"
    by (simp add: reach(3) run)
  have res: "fst (Login e g) = Returns [] [] (Some timeout_error)"
    by (simp add: reach(1) run)
  have "ListenAndServe '':1069'' \<in> set ?pre"
    by simp
  with fx have ex: "\<exists>fx. snd (snd (Login e g)) = fx @ [Shutdown] \<and> ListenAndServe '':1069'' \<in> set fx"
    by blast
  have closed: "\<not> listening (snd (snd (Login e g))) b"
    unfolding fx by (simp only: listening_Shutdown) simp
  have cache: "cachedToken (fst (snd (Login e g))) = cachedToken g"
    by (simp add: reach(2) run)
  from res ex closed cache show ?thesis by (intro conjI)
qed


lemma state_initPKCE: "state (initPKCE e g) = generateRandomString (rand_source e) 0 16"
  by (simp add: initPKCE_def Let_def)

lemma example_state_env:
  assumes "rand_source e = rand_source example_env"
  shows "state (initPKCE e g) = ''AAAAAAAAAAAAAAAAAAAAAA''"
  using example_state [of g] by (simp add: state_initPKCE assms)

lemma codeVerifier_initPKCE:
  "codeVerifier (initPKCE e g) = generateCodeVerifier (rand_source e) 16"
  by (simp add: initPKCE_def Let_def)

lemma example_verifier_env:
  assumes "rand_source e = rand_source example_env"
  shows "codeVerifier (initPKCE e g) = ''dBjftJeZ4CVP-mB92K27uhbUJU1p1r_wW1gFWFOEjXk''"
  using example_verifier [of g] by (simp add: codeVerifier_initPKCE assms)

lemma denied_request_fails: "callback_failure g denied_request"
  by (simp add: callback_failure_def denied_request_def Query_Get_def)

lemma code_request_passes:
  assumes "rand_source e = rand_source example_env"
  shows "\<not> callback_failure (initPKCE e g) (code_request reply)"
  by (simp add: callback_failure_def code_request_def Query_Get_def example_state_env [OF assms])

lemma rejected_exchange_fails: "exchange_fails e (code_request (Response 400 ''invalid_grant''))"
  by (simp add: exchange_fails_def code_request_def)

text \<open>
  A first login in which the user refuses and a later code is rejected by the token
  endpoint: the timer wins.
\<close>

lemma first_login_times_out_example:
  "cachedToken new_process = None
   \<and> \<not> handlerRegistered new_process
   \<and> callbacks failing_env = [denied_request, code_request (Response 400 ''invalid_grant'')]
   \<and> callback_failure (initPKCE failing_env new_process) denied_request
   \<and> exchange_fails failing_env (code_request (Response 400 ''invalid_grant''))
   \<and> fst (Login failing_env new_process)
       = Returns [] [] (Some ''authentication timeout after 5 minutes'')
   \<and> \<not> listening (snd (snd (Login failing_env new_process))) False
   \<and> cachedToken (fst (snd (Login failing_env new_process))) = None"
proof -
  have none: "cachedToken new_process = None" and fresh: "\<not> handlerRegistered new_process"
    by (simp_all add: new_process_def)
  have cbs: "callbacks failing_env = [denied_request, code_request (Response 400 ''invalid_grant'')]"
    by (simp add: failing_env_def)
  note d = denied_request_fails [of "initPKCE failing_env new_process"]
  note x = rejected_exchange_fails [of failing_env]
  from d x cbs
  have all: "\<forall>r\<in>set (callbacks failing_env).
      callback_failure (initPKCE failing_env new_process) r \<or> exchange_fails failing_env r"
    by simp
  from none have reach: "cachedToken new_process = None
      \<or> (\<not> isTokenValid (cachedToken new_process) (clock failing_env)
          \<and> isl (snd (refreshToken failing_env (the (cachedToken new_process)))))"
    by simp
  note C4 = first_login_times_out [OF reach fresh all, of False]
  from C4 have res: "fst (Login failing_env new_process)
      = Returns [] [] (Some ''authentication timeout after 5 minutes'')"
    by (simp add: timeout_error_def)
  from C4 have closed: "\<not> listening (snd (snd (Login failing_env new_process))) False"
    by blast
  from C4 none have cache: "cachedToken (fst (snd (Login failing_env new_process))) = None"
    by simp
  from none fresh cbs d x res closed cache show ?thesis by (intro conjI)
qed

text \<open>
  C4 at a failing input. A process calls \<open>Login\<close> and no callback hands a token over:
  \<open>Login\<close> returns the timeout error, as it should, and leaves the handler registered
  on the default mux. The process calls \<open>Login\<close> again, and this time no request
  comes at all. \<open>Login\<close> does not return the timeout error: it panics at the second
  registration of the handler, before a listener is started.
\<close>

theorem C4_second_login_panics:
  "fst (Login failing_env new_process)
     = Returns [] [] (Some ''authentication timeout after 5 minutes'')
   \<and> cachedToken (fst (snd (Login failing_env new_process))) = None
   \<and> handlerRegistered (fst (snd (Login failing_env new_process)))
   \<and> callbacks example_env = []
   \<and> fst (Login example_env (fst (snd (Login failing_env new_process))))
       = Panics ''http: multiple registrations for /''
   \<and> snd (snd (Login example_env (fst (snd (Login failing_env new_process)))))
       = [HandleFunc ''/'']"
proof -
  let ?g1 = "fst (snd (Login failing_env new_process))"
  have none: "cachedToken new_process = None" and fresh: "\<not> handlerRegistered new_process"
    by (simp_all add: new_process_def)
  have all: "\<forall>r\<in>set (callbacks failing_env).
      callback_failure (initPKCE failing_env new_process) r \<or> exchange_fails failing_env r"
    by (simp add: failing_env_def denied_request_fails rejected_exchange_fails)
  have one: "Login failing_env new_process = Login_interactive failing_env new_process"
    by (simp add: Login_no_cache none)
  note run = Login_interactive_timeout [OF fresh all]
  have res: "fst (Login failing_env new_process)
      = Returns [] [] (Some ''authentication timeout after 5 minutes'')"
    by (simp add: one run timeout_error_def)
  have g1: "?g1 = attempt_globals failing_env new_process"
    by (simp add: one run)
  have cache: "cachedToken ?g1 = None"
    by (simp add: g1 none)
  have reg: "handlerRegistered ?g1"
    by (simp add: g1 attempt_globals_def)
  have quiet: "callbacks example_env = []"
    by (simp add: example_env_def)
  have two: "Login example_env ?g1 = Login_interactive example_env ?g1"
    by (simp add: Login_no_cache cache)
  note panic = Login_interactive_panics [OF reg, of example_env]
  from res cache reg quiet two panic show ?thesis by (intro conjI) simp_all
qed

text \<open>
  C1, as the code has it. A callback request that carries a failure (an \<open>error\<close>
  parameter, a \<open>state\<close> that is not the attempt's, or no \<open>code\<close>) is answered by the
  handler with an HTTP error that names the failure (status 403, 403 and 400), and that
  is all the handler does: it does not call the token endpoint and sends nothing to
  \<open>Login\<close>. \<open>Login\<close> does not return because of it: it goes on waiting, and its result
  and the package variables it leaves are those of the same call without that request.
  For \<open>error=access_denied\<close> the answer is status 403 with the text
  \<open>Authentication error: access_denied - \<close> and the description.
\<close>

theorem C1_failed_callback_is_not_delivered:
  assumes "callback_failure (initPKCE e g) r"
  shows "completeAuthHandler e (attempt_globals e g) r =
           (if Query_Get (query r) ''error'' \<noteq> [] then
              ([Respond (http_Error (''Authentication error: '' @ Query_Get (query r) ''error''
                  @ '' - '' @ Query_Get (query r) ''error_description'') 403)], None)
            else if Query_Get (query r) ''state'' \<noteq> state (initPKCE e g) then
              ([Respond (http_Error ''Invalid state parameter'' 403)], None)
            else ([Respond (http_Error ''No authorization code'' 400)], None))
       \<and> (\<forall>x \<in> set (fst (completeAuthHandler e (attempt_globals e g) r)). \<not> is_token_call x)
       \<and> fst (Login (e\<lparr>callbacks := r # rs\<rparr>) g) = fst (Login (e\<lparr>callbacks := rs\<rparr>) g)
       \<and> fst (snd (Login (e\<lparr>callbacks := r # rs\<rparr>) g))
           = fst (snd (Login (e\<lparr>callbacks := rs\<rparr>) g))"
proof -
  from assms have f: "callback_failure (attempt_globals e g) r"
    by simp
  have reply: "completeAuthHandler e (attempt_globals e g) r =
      (if Query_Get (query r) ''error'' \<noteq> [] then
         ([Respond (http_Error (''Authentication error: '' @ Query_Get (query r) ''error''
             @ '' - '' @ Query_Get (query r) ''error_description'') 403)], None)
       else if Query_Get (query r) ''state'' \<noteq> state (initPKCE e g) then
         ([Respond (http_Error ''Invalid state parameter'' 403)], None)
       else ([Respond (http_Error ''No authorization code'' 400)], None))"
    using handler_rejects [OF f, of e] by simp
  have quiet: "\<forall>x \<in> set (fst (completeAuthHandler e (attempt_globals e g) r)). \<not> is_token_call x"
    unfolding reply by simp
  from assms have "callback_failure (initPKCE e g) r \<or> exchange_fails e r"
    by simp
  note skip = Login_skip [OF this, of rs]
  from reply quiet skip show ?thesis by (intro conjI) simp_all
qed


lemma denied_request_reply:
  "completeAuthHandler e g denied_request =
     ([Respond (http_Error ''Authentication error: access_denied - '' 403)], None)"
  by (simp add: completeAuthHandler_def Let_def denied_request_def Query_Get_def)

text \<open>
  The user refuses: the browser gets status 403, and \<open>Login\<close> behaves as if no request
  had come.
\<close>

theorem C1_failed_callback_is_not_delivered_witness:
  "callback_failure (initPKCE example_env new_process) denied_request
   \<and> Query_Get (query denied_request) ''error'' = ''access_denied''
   \<and> completeAuthHandler example_env (attempt_globals example_env new_process) denied_request
       = ([Respond (http_Error ''Authentication error: access_denied - '' 403)], None)
   \<and> fst (Login (example_env\<lparr>callbacks := [denied_request]\<rparr>) new_process)
       = fst (Login (example_env\<lparr>callbacks := []\<rparr>) new_process)
   \<and> fst (snd (Login (example_env\<lparr>callbacks := [denied_request]\<rparr>) new_process))
       = fst (snd (Login (example_env\<lparr>callbacks := []\<rparr>) new_process))"
proof -
  note f = denied_request_fails [of "initPKCE example_env new_process"]
  have q: "Query_Get (query denied_request) ''error'' = ''access_denied''"
    by (simp add: denied_request_def Query_Get_def)
  note C1 = C1_failed_callback_is_not_delivered [OF f, of "[]"]
  from C1 have skip: "fst (Login (example_env\<lparr>callbacks := [denied_request]\<rparr>) new_process)
       = fst (Login (example_env\<lparr>callbacks := []\<rparr>) new_process)"
    "fst (snd (Login (example_env\<lparr>callbacks := [denied_request]\<rparr>) new_process))
       = fst (snd (Login (example_env\<lparr>callbacks := []\<rparr>) new_process))"
    by blast+
  from f q denied_request_reply skip show ?thesis by (intro conjI)
qed

text \<open>
  The claim as it is written fails: after a callback with \<open>error=access_denied\<close> and
  nothing else, \<open>Login\<close> returns the timeout error, which does not mention
  \<open>access_denied\<close>.
\<close>

theorem C1_counterexample:
  "Query_Get (query denied_request) ''error'' = ''access_denied''
   \<and> fst (Login (example_env\<lparr>callbacks := [denied_request]\<rparr>) new_process)
       = Returns [] [] (Some ''authentication timeout after 5 minutes'')
   \<and> \<not> strings_Contains ''authentication timeout after 5 minutes'' ''access_denied''"
proof -
  have q: "Query_Get (query denied_request) ''error'' = ''access_denied''"
    by (simp add: denied_request_def Query_Get_def)
  have run: "fst (Login (example_env\<lparr>callbacks := [denied_request]\<rparr>) new_process)
       = Returns [] [] (Some ''authentication timeout after 5 minutes'')"
    by (simp add: Login_def Login_interactive_def new_process_def Let_def
        denied_request_reply)
  have no: "\<not> strings_Contains ''authentication timeout after 5 minutes'' ''access_denied''"
    by (simp add: strings_Contains_def)
  from q run no show ?thesis by (intro conjI)
qed

text \<open>
  C2, as the code has it. The exchange is made by the handler, not by \<open>Login\<close>. When
  the exchange of a request's code fails (network error, status other than 200, or a
  body that does not decode), the handler answers the request with status 500 and the
  text \<open>Failed to get token: \<close> followed by the exchange error, and sends nothing to
  \<open>Login\<close>. \<open>Login\<close> does not return the exchange error: it goes on waiting, and its
  result and the package variables it leaves, the cached token among them, are those of
  the same call without that request. An interactive login whose only callback is such
  a request ends with the timeout error (or with the panic of a second registration)
  and the cached token it started with.
\<close>

theorem C2_failed_exchange_is_not_delivered:
  assumes "\<not> callback_failure (initPKCE e g) r" and "exchange_fails e r"
  shows "(\<exists>err. snd (exchangeCodeForToken e (attempt_globals e g) r (Query_Get (query r) ''code''))
                  = Inl err
             \<and> completeAuthHandler e (attempt_globals e g) r =
                 ([PostForm tokenURL
                     [(''client_id'', clientID), (''grant_type'', ''authorization_code''),
                      (''code'', Query_Get (query r) ''code''), (''redirect_uri'', redirectURI),
                      (''code_verifier'', codeVerifier (attempt_globals e g))],
                   Respond (http_Error (''Failed to get token: '' @ err) 500)], None))
       \<and> fst (Login (e\<lparr>callbacks := r # rs\<rparr>) g) = fst (Login (e\<lparr>callbacks := rs\<rparr>) g)
       \<and> fst (snd (Login (e\<lparr>callbacks := r # rs\<rparr>) g))
           = fst (snd (Login (e\<lparr>callbacks := rs\<rparr>) g))
       \<and> fst (Login_interactive (e\<lparr>callbacks := [r]\<rparr>) g)
           = (if handlerRegistered g then Panics ''http: multiple registrations for /''
              else Returns [] [] (Some timeout_error))
       \<and> cachedToken (fst (snd (Login_interactive (e\<lparr>callbacks := [r]\<rparr>) g))) = cachedToken g"
proof -
  let ?g = "attempt_globals e g" and ?code = "Query_Get (query r) ''code''"
  from assms(1) have ok: "\<not> callback_failure ?g r"
    by simp
  from assms(2) obtain err where err: "snd (exchangeCodeForToken e ?g r ?code) = Inl err"
    using exchange_fails_iff [of e r ?g ?code] by (cases "snd (exchangeCodeForToken e ?g r ?code)") auto
  have reply: "completeAuthHandler e ?g r =
      ([PostForm tokenURL
          [(''client_id'', clientID), (''grant_type'', ''authorization_code''),
           (''code'', ?code), (''redirect_uri'', redirectURI),
           (''code_verifier'', codeVerifier ?g)],
        Respond (http_Error (''Failed to get token: '' @ err) 500)], None)"
    using err exchange_effects [of e ?g r ?code]
    by (cases "exchangeCodeForToken e ?g r ?code") (simp add: handler_exchanges [OF ok])
  from err reply have first: "\<exists>err. snd (exchangeCodeForToken e ?g r ?code) = Inl err
      \<and> completeAuthHandler e ?g r =
          ([PostForm tokenURL
              [(''client_id'', clientID), (''grant_type'', ''authorization_code''),
               (''code'', ?code), (''redirect_uri'', redirectURI),
               (''code_verifier'', codeVerifier ?g)],
            Respond (http_Error (''Failed to get token: '' @ err) 500)], None)"
    by blast
  from assms(2) have either: "callback_failure (initPKCE e g) r \<or> exchange_fails e r"
    by simp
  note skip = Login_skip [OF either, of rs]
  let ?e1 = "e\<lparr>callbacks := [r]\<rparr>"
  have same: "attempt_globals ?e1 g = ?g"
    by (simp add: attempt_globals_def initPKCE_env [of ?e1 e])
  have "snd (await ?e1 ?g [r]) = snd (await e ?g [r])"
    by (simp add: await_env [of ?e1 e] del: await.simps)
  also from ok assms(2) have "snd (await e ?g [r]) = None"
    by (intro await_all_fail) simp
  finally have none: "snd (await ?e1 ?g (callbacks ?e1)) = None"
    by simp
  have res: "fst (Login_interactive ?e1 g)
      = (if handlerRegistered g then Panics ''http: multiple registrations for /''
         else Returns [] [] (Some timeout_error))"
    using none by (simp add: Login_interactive_result same del: await.simps)
  have cache: "cachedToken (fst (snd (Login_interactive ?e1 g))) = cachedToken g"
    using none by (simp add: Login_interactive_globals same del: await.simps)
  from first skip res cache show ?thesis by (intro conjI) simp_all
qed


lemma codeVerifier_attempt [simp]:
  "codeVerifier (attempt_globals e g) = codeVerifier (initPKCE e g)"
  by (simp add: attempt_globals_def)

lemma show_nat_400: "show_nat 400 = ''400''"
  by (simp add: show_nat.simps digit_def)

lemma rejected_exchange_error:
  "snd (exchangeCodeForToken e g (code_request (Response 400 ''invalid_grant'')) code)
     = Inl ''token exchange failed (status 400): invalid_grant''"
  by (simp add: exchangeCodeForToken_def code_request_def show_nat_400)

lemma code_request_code: "Query_Get (query (code_request reply)) ''code'' = ''c0de''"
  by (simp add: code_request_def Query_Get_def)

text \<open>
  The token endpoint rejects the code with status 400: the browser gets status 500 with
  the exchange error, and the login ends with the timeout error.
\<close>

theorem C2_failed_exchange_is_not_delivered_witness:
  "\<not> callback_failure (initPKCE example_env new_process)
        (code_request (Response 400 ''invalid_grant''))
   \<and> exchange_fails example_env (code_request (Response 400 ''invalid_grant''))
   \<and> completeAuthHandler example_env (attempt_globals example_env new_process)
         (code_request (Response 400 ''invalid_grant''))
       = ([PostForm tokenURL
             [(''client_id'', clientID), (''grant_type'', ''authorization_code''),
              (''code'', ''c0de''), (''redirect_uri'', redirectURI),
              (''code_verifier'', ''dBjftJeZ4CVP-mB92K27uhbUJU1p1r_wW1gFWFOEjXk'')],
           Respond (http_Error
             ''Failed to get token: token exchange failed (status 400): invalid_grant'' 500)],
          None)
   \<and> fst (Login_interactive
            (example_env\<lparr>callbacks := [code_request (Response 400 ''invalid_grant'')]\<rparr>)
            new_process)
       = Returns [] [] (Some ''authentication timeout after 5 minutes'')
   \<and> cachedToken (fst (snd (Login_interactive
            (example_env\<lparr>callbacks := [code_request (Response 400 ''invalid_grant'')]\<rparr>)
            new_process))) = None"
proof -
  let ?r = "code_request (Response 400 ''invalid_grant'')"
  have ok: "\<not> callback_failure (initPKCE example_env new_process) ?r"
    by (rule code_request_passes) simp
  note bad = rejected_exchange_fails [of example_env]
  note C2 = C2_failed_exchange_is_not_delivered [OF ok bad, of "[]"]
  from C2 have reply: "completeAuthHandler example_env (attempt_globals example_env new_process) ?r
       = ([PostForm tokenURL
             [(''client_id'', clientID), (''grant_type'', ''authorization_code''),
              (''code'', ''c0de''), (''redirect_uri'', redirectURI),
              (''code_verifier'', ''dBjftJeZ4CVP-mB92K27uhbUJU1p1r_wW1gFWFOEjXk'')],
           Respond (http_Error
             ''Failed to get token: token exchange failed (status 400): invalid_grant'' 500)],
          None)"
    by (auto simp add: rejected_exchange_error code_request_code example_verifier)
  from C2 have res: "fst (Login_interactive (example_env\<lparr>callbacks := [?r]\<rparr>) new_process)
       = Returns [] [] (Some ''authentication timeout after 5 minutes'')"
    by (simp add: new_process_def timeout_error_def)
  from C2 have cache: "cachedToken (fst (snd (Login_interactive
       (example_env\<lparr>callbacks := [?r]\<rparr>) new_process))) = None"
    by (simp add: new_process_def)
  from ok bad reply res cache show ?thesis by (intro conjI)
qed

text \<open>
  The claim as it is written fails: the exchange of the only callback fails with
  \<open>token exchange failed (status 400): invalid_grant\<close>, and \<open>Login\<close> returns the timeout
  error instead of it.
\<close>

theorem C2_counterexample:
  "\<not> callback_failure (initPKCE example_env new_process)
        (code_request (Response 400 ''invalid_grant''))
   \<and> snd (exchangeCodeForToken example_env (attempt_globals example_env new_process)
           (code_request (Response 400 ''invalid_grant'')) ''c0de'')
       = Inl ''token exchange failed (status 400): invalid_grant''
   \<and> fst (Login (example_env\<lparr>callbacks := [code_request (Response 400 ''invalid_grant'')]\<rparr>)
           new_process)
       = Returns [] [] (Some ''authentication timeout after 5 minutes'')"
proof -
  let ?r = "code_request (Response 400 ''invalid_grant'')"
  let ?e = "example_env\<lparr>callbacks := [?r]\<rparr>"
  have ok: "\<not> callback_failure (initPKCE example_env new_process) ?r"
    by (rule code_request_passes) simp
  have none: "cachedToken new_process = None" and fresh: "\<not> handlerRegistered new_process"
    by (simp_all add: new_process_def)
  have all: "\<forall>r\<in>set (callbacks ?e). callback_failure (initPKCE ?e new_process) r \<or> exchange_fails ?e r"
    by (simp add: rejected_exchange_fails)
  have "fst (Login ?e new_process) = fst (Login_interactive ?e new_process)"
    by (simp add: Login_no_cache none)
  also have "\<dots> = Returns [] [] (Some timeout_error)"
    by (simp add: Login_interactive_timeout [OF fresh all])
  finally have run: "fst (Login ?e new_process)
      = Returns [] [] (Some ''authentication timeout after 5 minutes'')"
    by (simp add: timeout_error_def)
  from ok rejected_exchange_error run show ?thesis by (intro conjI)
qed


subsection \<open>The cached token\<close>

lemma refresh_call_is_refresh: "is_refresh_call (refresh_call t)"
  by (simp add: refresh_call_def)

lemma refresh_effects_call: "fst (refreshToken e t) = [refresh_call t]"
  by (simp add: refresh_effects refresh_call_def)

lemma handler_no_refresh:
  assumes "x \<in> set (fst (completeAuthHandler e g r))"
  shows "\<not> is_refresh_call x"
proof (cases "callback_failure g r")
  case True
  with assms show ?thesis
    by (auto simp add: handler_rejects split: if_splits)
next
  case False
  with assms exchange_effects [of e g r "Query_Get (query r) ''code''"] show ?thesis
    by (cases "exchangeCodeForToken e g r (Query_Get (query r) ''code'')")
      (auto simp add: handler_exchanges split: sum.splits)
qed

lemma await_no_refresh:
  assumes "x \<in> set (fst (await e g rs))"
  shows "\<not> is_refresh_call x"
  using assms
proof (induction rs)
  case Nil
  then show ?case by simp
next
  case (Cons r rs)
  show ?case
  proof (cases "snd (completeAuthHandler e g r)")
    case None
    with Cons.prems have "x \<in> set (fst (completeAuthHandler e g r)) \<or> x \<in> set (fst (await e g rs))"
      by (simp add: await_skip del: await.simps)
    with Cons.IH handler_no_refresh show ?thesis by blast
  next
    case (Some tok)
    with Cons.prems have "x \<in> set (fst (completeAuthHandler e g r))"
      by (cases "completeAuthHandler e g r") simp
    then show ?thesis by (rule handler_no_refresh)
  qed
qed

lemma interactive_no_refresh:
  assumes "x \<in> set (snd (snd (Login_interactive e g)))"
  shows "\<not> is_refresh_call x"
proof (cases "handlerRegistered g")
  case True
  with assms show ?thesis by (auto simp add: Login_interactive_panics)
next
  case False
  with assms await_no_refresh [of x e "attempt_globals e g" "callbacks e"] show ?thesis
    by (cases "await e (attempt_globals e g) (callbacks e)")
      (auto simp add: Login_interactive_runs split: option.splits)
qed

lemma interactive_error_is_timeout:
  assumes "fst (Login_interactive e g) = Returns a b (Some msg)"
  shows "msg = timeout_error"
  using assms by (simp add: Login_interactive_result split: if_splits option.splits)

lemma refresh_error_not_timeout:
  assumes "snd (refreshToken e t) = Inl err"
  shows "err \<noteq> timeout_error"
  using assms
  by (auto simp add: refreshToken_def Let_def timeout_error_def
      split: post_reply.splits sum.splits if_splits)

lemma Login_interactive_ignores_refresh:
  "Login_interactive (e\<lparr>refresh_reply := rr\<rparr>) g = Login_interactive e g"
  by (rule Login_interactive_env) simp_all

text \<open>
  When the cached token fails the freshness test, \<open>Login\<close> calls the token endpoint
  with the refresh grant once, and that is the only refresh call of the whole call of
  \<open>Login\<close>. If the refresh succeeds, \<open>Login\<close> returns the access and refresh tokens of
  the new token, stores it as the cached token and does nothing else. If it fails,
  control passes to the second half of \<open>Login\<close>, run from the same package variables;
  that half does not depend on the answer to the refresh, and an error that \<open>Login\<close>
  then returns is the timeout error, never the refresh error.
\<close>

lemma stale_token_refreshed_once:
  assumes "cachedToken g = Some token"
    and "\<not> Expiry token > clock e + 5 * Minute"
  shows "Login e g =
           (case snd (refreshToken e token) of
              Inr newToken \<Rightarrow>
                (Returns (AccessToken newToken) (RefreshToken newToken) None,
                 g\<lparr>cachedToken := Some newToken\<rparr>, [refresh_call token])
            | Inl err \<Rightarrow>
                (fst (Login_interactive e g), fst (snd (Login_interactive e g)),
                 refresh_call token # snd (snd (Login_interactive e g))))
       \<and> length (filter is_refresh_call (snd (snd (Login e g)))) = 1
       \<and> (\<forall>rr. Login_interactive (e\<lparr>refresh_reply := rr\<rparr>) g = Login_interactive e g)
       \<and> (\<forall>err a b msg. snd (refreshToken e token) = Inl err
             \<longrightarrow> fst (Login e g) = Returns a b (Some msg)
             \<longrightarrow> msg = timeout_error \<and> msg \<noteq> err)"
proof -
  from assms(2) have stale: "\<not> isTokenValid (Some token) (clock e)"
    by (simp add: isTokenValid_def)
  have run: "Login e g =
      (case snd (refreshToken e token) of
         Inr newToken \<Rightarrow>
           (Returns (AccessToken newToken) (RefreshToken newToken) None,
            g\<lparr>cachedToken := Some newToken\<rparr>, [refresh_call token])
       | Inl err \<Rightarrow>
           (fst (Login_interactive e g), fst (snd (Login_interactive e g)),
            refresh_call token # snd (snd (Login_interactive e g))))"
    using refresh_effects_call [of e token]
    by (cases "refreshToken e token")
      (auto simp add: Login_stale [OF assms(1) stale] split: sum.splits prod.splits)
  have none: "filter is_refresh_call (snd (snd (Login_interactive e g))) = []"
    using interactive_no_refresh [of _ e g] by (simp add: filter_empty_conv)
  have once: "length (filter is_refresh_call (snd (snd (Login e g)))) = 1"
    unfolding run by (simp add: refresh_call_is_refresh none split: sum.splits)
  have indep: "\<forall>rr. Login_interactive (e\<lparr>refresh_reply := rr\<rparr>) g = Login_interactive e g"
    by (simp add: Login_interactive_ignores_refresh)
  have hidden: "\<forall>err a b msg. snd (refreshToken e token) = Inl err
      \<longrightarrow> fst (Login e g) = Returns a b (Some msg)
      \<longrightarrow> msg = timeout_error \<and> msg \<noteq> err"
  proof (intro allI impI)
    fix err a b msg
    assume failed: "snd (refreshToken e token) = Inl err"
      and ret: "fst (Login e g) = Returns a b (Some msg)"
    from ret failed have "fst (Login_interactive e g) = Returns a b (Some msg)"
      by (simp add: run)
    then have "msg = timeout_error"
      by (rule interactive_error_is_timeout)
    with refresh_error_not_timeout [OF failed] show "msg = timeout_error \<and> msg \<noteq> err"
      by simp
  qed
  from run once indep hidden show ?thesis by (intro conjI)
qed


text \<open>
  A cached token can only come from an interactive login, and an interactive login
  registers the handler: in every process that \<open>Login\<close> has brought about, a cached
  token goes with a registered handler.
\<close>

lemma Login_keeps_registration:
  assumes "cachedToken g \<noteq> None \<longrightarrow> handlerRegistered g"
  shows "cachedToken (fst (snd (Login e g))) \<noteq> None \<longrightarrow> handlerRegistered (fst (snd (Login e g)))"
proof (cases "cachedToken g")
  case None
  then show ?thesis
    by (simp add: Login_no_cache Login_interactive_globals attempt_globals_def
        split: option.splits)
next
  case (Some t)
  with assms have reg: "handlerRegistered g" by simp
  show ?thesis
  proof (cases "isTokenValid (Some t) (clock e)")
    case True
    with Some reg show ?thesis by (simp add: Login_fresh)
  next
    case False
    with Some reg show ?thesis
      by (cases "refreshToken e t")
        (auto simp add: Login_stale Login_interactive_panics split: sum.splits)
  qed
qed

text \<open>
  In such a process a refresh that fails is followed by the panic of the second
  registration, not by an interactive login.
\<close>

lemma failed_refresh_panics:
  assumes "cachedToken g = Some t" and "handlerRegistered g"
    and "\<not> isTokenValid (Some t) (clock e)"
    and "snd (refreshToken e t) = Inl err"
  shows "Login e g =
           (Panics ''http: multiple registrations for /'', initPKCE e g,
            [refresh_call t, HandleFunc ''/''])"
  using assms(4) refresh_effects_call [of e t]
  by (cases "refreshToken e t")
    (simp add: Login_stale [OF assms(1,3)] Login_interactive_panics [OF assms(2)])

lemma first_login:
  "Login first_env new_process =
     (Returns ''A1'' ''R1'' None,
      (attempt_globals first_env new_process)\<lparr>cachedToken := Some first_token\<rparr>,
      [HandleFunc ''/'', ListenAndServe '':1069'',
       OpenBrowser (fst (buildAuthURL (attempt_globals first_env new_process)))
         (snd (buildAuthURL (attempt_globals first_env new_process))),
       PostForm tokenURL
         [(''client_id'', clientID), (''grant_type'', ''authorization_code''),
          (''code'', ''c0de''), (''redirect_uri'', redirectURI),
          (''code_verifier'', ''dBjftJeZ4CVP-mB92K27uhbUJU1p1r_wW1gFWFOEjXk'')],
       Respond Success_page, Shutdown])"
proof -
  let ?r = "code_request (Response 200
      ''{access_token:A1,token_type:Bearer,expires_in:3600,refresh_token:R1}'')"
  let ?g = "attempt_globals first_env new_process"
  have src: "rand_source first_env = rand_source example_env"
    by (simp add: first_env_def)
  have ok: "\<not> callback_failure ?g ?r"
    using code_request_passes [OF src, of new_process] by simp
  have ver: "codeVerifier (initPKCE first_env new_process)
      = ''dBjftJeZ4CVP-mB92K27uhbUJU1p1r_wW1gFWFOEjXk''"
    by (rule example_verifier_env [OF src])
  have ex: "exchangeCodeForToken first_env ?g ?r ''c0de'' =
      ([PostForm tokenURL
          [(''client_id'', clientID), (''grant_type'', ''authorization_code''),
           (''code'', ''c0de''), (''redirect_uri'', redirectURI),
           (''code_verifier'', ''dBjftJeZ4CVP-mB92K27uhbUJU1p1r_wW1gFWFOEjXk'')]],
       Inr first_token)"
  proof -
    have dec: "json_Decode first_env = example_Decode"
      by (simp add: first_env_def example_env_def)
    show ?thesis
      by (simp add: exchangeCodeForToken_def ver dec code_request_def
          example_Decode_def first_token_def Duration_seconds_hour Second_def)
  qed
  have h: "completeAuthHandler first_env ?g ?r =
      ([PostForm tokenURL
          [(''client_id'', clientID), (''grant_type'', ''authorization_code''),
           (''code'', ''c0de''), (''redirect_uri'', redirectURI),
           (''code_verifier'', ''dBjftJeZ4CVP-mB92K27uhbUJU1p1r_wW1gFWFOEjXk'')],
        Respond Success_page], Some first_token)"
    by (simp add: handler_exchanges [OF ok] code_request_code ex)
  have cbs: "callbacks first_env = [?r]"
    by (simp add: first_env_def)
  have "Login first_env new_process = Login_interactive first_env new_process"
    by (simp add: Login_no_cache new_process_def)
  also have "\<dots> = (Returns ''A1'' ''R1'' None, ?g\<lparr>cachedToken := Some first_token\<rparr>,
      [HandleFunc ''/'', ListenAndServe '':1069'',
       OpenBrowser (fst (buildAuthURL ?g)) (snd (buildAuthURL ?g)),
       PostForm tokenURL
         [(''client_id'', clientID), (''grant_type'', ''authorization_code''),
          (''code'', ''c0de''), (''redirect_uri'', redirectURI),
          (''code_verifier'', ''dBjftJeZ4CVP-mB92K27uhbUJU1p1r_wW1gFWFOEjXk'')],
       Respond Success_page, Shutdown])"
  proof -
    have fresh: "\<not> handlerRegistered new_process"
      by (simp add: new_process_def)
    have tok: "AccessToken first_token = ''A1''" "RefreshToken first_token = ''R1''"
      by (simp_all add: first_token_def)
    show ?thesis
      by (simp add: Login_interactive_runs [OF fresh] cbs h tok)
  qed
  finally show ?thesis .
qed

text \<open>
  C6 at a failing input. A process logs in through the browser and gets
  \<open>first_token\<close>. When the token has expired \<open>Login\<close> is called again and the refresh
  fails: \<open>Login\<close> makes its one refresh call, goes on to register the handler a second
  time, and panics. No listener is started and no browser is opened: there is no
  interactive login.
\<close>

theorem C6_failed_refresh_panics:
  "fst (Login first_env new_process) = Returns ''A1'' ''R1'' None
   \<and> cachedToken (fst (snd (Login first_env new_process))) = Some first_token
   \<and> \<not> isTokenValid (Some first_token) (clock later_env)
   \<and> snd (refreshToken later_env first_token) = Inl ''failed to refresh token: connection refused''
   \<and> fst (Login later_env (fst (snd (Login first_env new_process))))
       = Panics ''http: multiple registrations for /''
   \<and> snd (snd (Login later_env (fst (snd (Login first_env new_process)))))
       = [refresh_call first_token, HandleFunc ''/'']"
proof -
  let ?g1 = "fst (snd (Login first_env new_process))"
  have res: "fst (Login first_env new_process) = Returns ''A1'' ''R1'' None"
    by (simp add: first_login)
  have cache: "cachedToken ?g1 = Some first_token"
    by (simp add: first_login)
  have reg: "handlerRegistered ?g1"
    by (simp add: first_login attempt_globals_def)
  have stale: "\<not> isTokenValid (Some first_token) (clock later_env)"
    by (simp add: isTokenValid_def first_token_def later_env_def Minute_def Second_def)
  have failed: "snd (refreshToken later_env first_token)
      = Inl ''failed to refresh token: connection refused''"
    by (simp add: refreshToken_def later_env_def example_env_def)
  note run = failed_refresh_panics [OF cache reg stale failed]
  from res cache stale failed run show ?thesis by (intro conjI) simp_all
qed


lemma interactive_cache:
  "cachedToken (fst (snd (Login_interactive e g))) =
     (if handlerRegistered g then cachedToken g
      else case snd (await e (attempt_globals e g) (callbacks e)) of
             None \<Rightarrow> cachedToken g
           | Some tok \<Rightarrow> Some tok)"
  by (simp add: Login_interactive_globals split: option.splits)

lemma interactive_cache_replaced:
  assumes "cachedToken (fst (snd (Login_interactive e g))) \<noteq> cachedToken g"
  shows "\<exists>tok. cachedToken (fst (snd (Login_interactive e g))) = Some tok
           \<and> fst (Login_interactive e g) = Returns (AccessToken tok) (RefreshToken tok) None
           \<and> \<not> handlerRegistered g
           \<and> snd (await e (attempt_globals e g) (callbacks e)) = Some tok"
  using assms
  by (auto simp add: interactive_cache Login_interactive_result split: if_splits option.splits)

lemma interactive_error_keeps_cache:
  assumes "fst (Login_interactive e g) = Returns a b (Some msg)"
  shows "cachedToken (fst (snd (Login_interactive e g))) = cachedToken g"
  using assms
  by (auto simp add: interactive_cache Login_interactive_result split: if_splits option.splits)

text \<open>
  C10. Whenever \<open>Login\<close> returns an error, the cached token is the one the call started
  with. When the cached token after a call differs from the one before, \<open>Login\<close> has
  returned without error the access and refresh tokens of the new cached token, and
  that token is either the result of a successful refresh of the stale token or the
  token that a callback handler handed over in the interactive login.
\<close>

theorem C10_cache_replaced_only_on_success:
  "(\<forall>a b msg. fst (Login e g) = Returns a b (Some msg)
       \<longrightarrow> cachedToken (fst (snd (Login e g))) = cachedToken g)
   \<and> (cachedToken (fst (snd (Login e g))) \<noteq> cachedToken g \<longrightarrow>
        (\<exists>tok. cachedToken (fst (snd (Login e g))) = Some tok
           \<and> fst (Login e g) = Returns (AccessToken tok) (RefreshToken tok) None
           \<and> ((\<exists>old. cachedToken g = Some old \<and> \<not> isTokenValid (Some old) (clock e)
                      \<and> snd (refreshToken e old) = Inr tok)
                \<or> (\<not> handlerRegistered g
                    \<and> snd (await e (attempt_globals e g) (callbacks e)) = Some tok))))"
proof (cases "cachedToken g")
  case None
  then have "Login e g = Login_interactive e g"
    by (rule Login_no_cache)
  then show ?thesis
    using interactive_error_keeps_cache [of e g] interactive_cache_replaced [of e g]
    by (simp only:) blast
next
  case (Some t)
  show ?thesis
  proof (cases "isTokenValid (Some t) (clock e)")
    case True
    with Some show ?thesis by (simp add: Login_fresh)
  next
    case False
    show ?thesis
    proof (cases "snd (refreshToken e t)")
      case (Inr new)
      with Some False show ?thesis
        by (cases "refreshToken e t") (auto simp add: Login_stale)
    next
      case (Inl err)
      with Some False have "fst (Login e g) = fst (Login_interactive e g)"
        and "fst (snd (Login e g)) = fst (snd (Login_interactive e g))"
        by (simp_all add: Login_reaches_interactive)
      then show ?thesis
        using interactive_error_keeps_cache [of e g] interactive_cache_replaced [of e g]
        by (simp only:) blast
    qed
  qed
qed

text \<open>
  A login that ends with the timeout error keeps the stale token it started with, and a
  successful refresh replaces it.
\<close>

theorem C10_cache_replaced_only_on_success_witness:
  "fst (Login example_env (new_process\<lparr>cachedToken := Some old_token\<rparr>))
     = Returns [] [] (Some ''authentication timeout after 5 minutes'')
   \<and> cachedToken (fst (snd (Login example_env (new_process\<lparr>cachedToken := Some old_token\<rparr>))))
       = Some old_token
   \<and> cachedToken (fst (snd (Login first_env new_process))) \<noteq> cachedToken new_process
   \<and> cachedToken (fst (snd (Login first_env new_process))) = Some first_token
   \<and> fst (Login first_env new_process) = Returns ''A1'' ''R1'' None"
proof -
  let ?g = "new_process\<lparr>cachedToken := Some old_token\<rparr>"
  have stale: "\<not> isTokenValid (Some old_token) (clock example_env)"
    by (simp add: isTokenValid_def old_token_def example_env_def Minute_def Second_def)
  have failed: "snd (refreshToken example_env old_token)
      = Inl ''failed to refresh token: connection refused''"
    by (simp add: refreshToken_def example_env_def)
  have reach: "cachedToken ?g = None
      \<or> (\<not> isTokenValid (cachedToken ?g) (clock example_env)
          \<and> isl (snd (refreshToken example_env (the (cachedToken ?g)))))"
    using stale failed by simp
  have fresh: "\<not> handlerRegistered ?g"
    by (simp add: new_process_def)
  have all: "\<forall>r\<in>set (callbacks example_env).
      callback_failure (initPKCE example_env ?g) r \<or> exchange_fails example_env r"
    by (simp add: example_env_def)
  have "fst (Login example_env ?g) = fst (Login_interactive example_env ?g)"
    by (rule Login_reaches_interactive(1) [OF reach])
  also have "\<dots> = Returns [] [] (Some timeout_error)"
    by (simp add: Login_interactive_timeout [OF fresh all])
  finally have err: "fst (Login example_env ?g)
      = Returns [] [] (Some ''authentication timeout after 5 minutes'')"
    by (simp add: timeout_error_def)
  note C10a = C10_cache_replaced_only_on_success [of example_env ?g, THEN conjunct1]
  from C10a err have kept: "cachedToken (fst (snd (Login example_env ?g))) = Some old_token"
    by simp
  have none: "cachedToken new_process = None"
    by (simp add: new_process_def)
  have changed: "cachedToken (fst (snd (Login first_env new_process))) \<noteq> cachedToken new_process"
    by (simp add: first_login none)
  note C10b = C10_cache_replaced_only_on_success [of first_env new_process, THEN conjunct2]
  from C10b changed have new: "cachedToken (fst (snd (Login first_env new_process))) = Some first_token"
    "fst (Login first_env new_process) = Returns ''A1'' ''R1'' None"
    by (simp_all add: first_login)
  from err kept changed new show ?thesis by (intro conjI)
qed

end
